theory Spec2Isabelle
  imports Main "HOL-Library.Word"
begin

section \<open>The true-interaction record of \<open>SRTrueInteraction.h\<close>\<close>

text \<open>
  The header declares two scoped enumerations and one class whose members are all
  public data members with default member initialisers. There is no member function:
  the operations of the class are its implicit default constructor and reading and
  assigning its public members.
\<close>

subsection \<open>Scalar types\<close>

text \<open>
  \<open>int\<close> and \<open>unsigned int\<close> are 32 bits wide: \<open>c_int\<close> is read with \<open>sint\<close>
  (two's complement), \<open>c_uint\<close> with \<open>uint\<close> or \<open>unat\<close>. A \<open>float\<close> is its IEEE-754
  binary32 bit pattern: bit 31 the sign, bits 30 to 23 the exponent, bits 22 to 0 the
  fraction.
\<close>

type_synonym c_int = "32 word"
type_synonym c_uint = "32 word"
type_synonym c_float = "32 word"

subsection \<open>\<open>enum class Generator\<close>\<close>

text \<open>
  A scoped enumeration without an explicit base has the fixed underlying type \<open>int\<close>,
  so an object of the enumeration type holds any value of \<open>int\<close>; the enumerators are
  named constants of that type.
\<close>

datatype Generator = Generator (Generator_underlying: c_int)

definition kUnknownGenerator :: Generator where
  "kUnknownGenerator = Generator 0"

definition kGENIE :: Generator where
  "kGENIE = Generator 1"

definition kGIBUU :: Generator where
  "kGIBUU = Generator 2"

definition kNEUT :: Generator where
  "kNEUT = Generator 3"

text \<open>The enumerators of \<open>Generator\<close>, in declaration order.\<close>

definition Generator_enumerators :: "Generator list" where
  "Generator_enumerators = [kUnknownGenerator, kGENIE, kGIBUU, kNEUT]"

subsection \<open>\<open>enum class ScatteringMode\<close>\<close>

datatype ScatteringMode = ScatteringMode (ScatteringMode_underlying: c_int)

definition kUnknownMode :: ScatteringMode where
  "kUnknownMode = ScatteringMode (- 1)"

definition kQE :: ScatteringMode where
  "kQE = ScatteringMode 0"

definition kRes :: ScatteringMode where
  "kRes = ScatteringMode 1"

definition kDIS :: ScatteringMode where
  "kDIS = ScatteringMode 2"

definition kCoh :: ScatteringMode where
  "kCoh = ScatteringMode 3"

definition kCohElastic :: ScatteringMode where
  "kCohElastic = ScatteringMode 4"

definition kElectronScattering :: ScatteringMode where
  "kElectronScattering = ScatteringMode 5"

definition kIMDAnnihilation :: ScatteringMode where
  "kIMDAnnihilation = ScatteringMode 6"

definition kInverseBetaDecay :: ScatteringMode where
  "kInverseBetaDecay = ScatteringMode 7"

definition kGlashowResonance :: ScatteringMode where
  "kGlashowResonance = ScatteringMode 8"

definition kAMNuGamma :: ScatteringMode where
  "kAMNuGamma = ScatteringMode 9"

definition kMEC :: ScatteringMode where
  "kMEC = ScatteringMode 10"

definition kDiffractive :: ScatteringMode where
  "kDiffractive = ScatteringMode 11"

definition kEM :: ScatteringMode where
  "kEM = ScatteringMode 12"

definition kWeakMix :: ScatteringMode where
  "kWeakMix = ScatteringMode 13"

text \<open>The enumerators of \<open>ScatteringMode\<close>, in declaration order.\<close>

definition ScatteringMode_enumerators :: "ScatteringMode list" where
  "ScatteringMode_enumerators =
     [kUnknownMode, kQE, kRes, kDIS, kCoh, kCohElastic, kElectronScattering,
      kIMDAnnihilation, kInverseBetaDecay, kGlashowResonance, kAMNuGamma, kMEC,
      kDiffractive, kEM, kWeakMix]"

text \<open>\<open>static_cast<int>\<close> of an enumeration value, read as a mathematical integer.\<close>

definition Generator_int :: "Generator \<Rightarrow> int" where
  "Generator_int g = sint (Generator_underlying g)"

definition ScatteringMode_int :: "ScatteringMode \<Rightarrow> int" where
  "ScatteringMode_int m = sint (ScatteringMode_underlying m)"

subsection \<open>\<open>class SRTrueInteraction\<close>\<close>

text \<open>
  The member types \<open>SRVector3D\<close> and \<open>SRTrueParticle\<close> come from headers that are
  only included here; they are the type parameters \<open>'vec\<close> and \<open>'part\<close>. The fields
  are in declaration order. \<open>std::vector\<close> is a list, \<open>std::string\<close> a string.
\<close>

record ('vec, 'part) SRTrueInteraction =
  isvtxcont :: bool
  pdg :: c_int
  pdgorig :: c_int
  iscc :: bool
  mode :: ScatteringMode
  targetPDG :: c_int
  hitnuc :: c_int
  E :: c_float
  vtx :: 'vec
  momentum :: 'vec
  position :: 'vec
  time :: c_float
  bjorkenX :: c_float
  inelasticity :: c_float
  Q2 :: c_float
  q0 :: c_float
  modq :: c_float
  W :: c_float
  t :: c_float
  baseline :: c_float
  npiplus :: c_uint
  npiminus :: c_uint
  npizero :: c_uint
  nproton :: c_uint
  nneutron :: c_uint
  ischarm :: bool
  isseaquark :: bool
  resnum :: c_int
  xsec :: c_float
  genweight :: c_float
  prod_vtx :: 'vec
  parent_dcy_mom :: 'vec
  parent_dcy_mode :: c_int
  parent_pdg :: c_int
  parent_dcy_E :: c_float
  imp_weight :: c_float
  generator :: Generator
  genVersion :: "c_uint list"
  genConfigString :: string
  nprim :: c_int
  prim :: "'part list"

text \<open>
  The implicit default constructor: every member takes its default member initialiser.
  \<open>NaN\<close> is the private constant of the class, initialised from
  \<open>std::numeric_limits<float>::signaling_NaN()\<close>, whose bit pattern the platform
  chooses; \<open>vec0\<close> is the value that the default constructor of \<open>SRVector3D\<close> gives.
  A default-constructed \<open>std::vector\<close> or \<open>std::string\<close> is empty.
\<close>

definition SRTrueInteraction_default ::
  "c_float \<Rightarrow> 'vec \<Rightarrow> ('vec, 'part) SRTrueInteraction" where
  "SRTrueInteraction_default NaN vec0 =
     \<lparr> isvtxcont = False,
       pdg = 0,
       pdgorig = 0,
       iscc = False,
       mode = kUnknownMode,
       targetPDG = 0,
       hitnuc = 0,
       E = NaN,
       vtx = vec0,
       momentum = vec0,
       position = vec0,
       time = NaN,
       bjorkenX = NaN,
       inelasticity = NaN,
       Q2 = NaN,
       q0 = NaN,
       modq = NaN,
       W = NaN,
       t = NaN,
       baseline = NaN,
       npiplus = 0,
       npiminus = 0,
       npizero = 0,
       nproton = 0,
       nneutron = 0,
       ischarm = False,
       isseaquark = False,
       resnum = 0,
       xsec = NaN,
       genweight = NaN,
       prod_vtx = vec0,
       parent_dcy_mom = vec0,
       parent_dcy_mode = - 1,
       parent_pdg = 0,
       parent_dcy_E = NaN,
       imp_weight = NaN,
       generator = kUnknownGenerator,
       genVersion = [],
       genConfigString = [],
       nprim = 0,
       prim = [] \<rparr>"

subsection \<open>Reading and assigning the public members\<close>

text \<open>
  Every member is public, so client code reads \<open>r.f\<close> and writes \<open>r.f = v\<close> for each
  member \<open>f\<close>. \<open>member\<close> names the members, \<open>member_value\<close> is the value a member
  can hold, and an \<open>assignment\<close> is one statement \<open>r.f = v\<close> with \<open>v\<close> of the
  declared type of \<open>f\<close>.
\<close>

datatype ('vec, 'part) member_value =
    V_bool bool
  | V_int c_int
  | V_uint c_uint
  | V_float c_float
  | V_vec 'vec
  | V_mode ScatteringMode
  | V_generator Generator
  | V_uint_vector "c_uint list"
  | V_string string
  | V_particle_vector "'part list"

datatype member =
    M_isvtxcont
  | M_pdg
  | M_pdgorig
  | M_iscc
  | M_mode
  | M_targetPDG
  | M_hitnuc
  | M_E
  | M_vtx
  | M_momentum
  | M_position
  | M_time
  | M_bjorkenX
  | M_inelasticity
  | M_Q2
  | M_q0
  | M_modq
  | M_W
  | M_t
  | M_baseline
  | M_npiplus
  | M_npiminus
  | M_npizero
  | M_nproton
  | M_nneutron
  | M_ischarm
  | M_isseaquark
  | M_resnum
  | M_xsec
  | M_genweight
  | M_prod_vtx
  | M_parent_dcy_mom
  | M_parent_dcy_mode
  | M_parent_pdg
  | M_parent_dcy_E
  | M_imp_weight
  | M_generator
  | M_genVersion
  | M_genConfigString
  | M_nprim
  | M_prim

text \<open>The read \<open>r.f\<close>.\<close>

primrec get_member ::
  "member \<Rightarrow> ('vec, 'part) SRTrueInteraction \<Rightarrow> ('vec, 'part) member_value" where
  "get_member M_isvtxcont r = V_bool (isvtxcont r)"
| "get_member M_pdg r = V_int (pdg r)"
| "get_member M_pdgorig r = V_int (pdgorig r)"
| "get_member M_iscc r = V_bool (iscc r)"
| "get_member M_mode r = V_mode (mode r)"
| "get_member M_targetPDG r = V_int (targetPDG r)"
| "get_member M_hitnuc r = V_int (hitnuc r)"
| "get_member M_E r = V_float (E r)"
| "get_member M_vtx r = V_vec (vtx r)"
| "get_member M_momentum r = V_vec (momentum r)"
| "get_member M_position r = V_vec (position r)"
| "get_member M_time r = V_float (time r)"
| "get_member M_bjorkenX r = V_float (bjorkenX r)"
| "get_member M_inelasticity r = V_float (inelasticity r)"
| "get_member M_Q2 r = V_float (Q2 r)"
| "get_member M_q0 r = V_float (q0 r)"
| "get_member M_modq r = V_float (modq r)"
| "get_member M_W r = V_float (W r)"
| "get_member M_t r = V_float (t r)"
| "get_member M_baseline r = V_float (baseline r)"
| "get_member M_npiplus r = V_uint (npiplus r)"
| "get_member M_npiminus r = V_uint (npiminus r)"
| "get_member M_npizero r = V_uint (npizero r)"
| "get_member M_nproton r = V_uint (nproton r)"
| "get_member M_nneutron r = V_uint (nneutron r)"
| "get_member M_ischarm r = V_bool (ischarm r)"
| "get_member M_isseaquark r = V_bool (isseaquark r)"
| "get_member M_resnum r = V_int (resnum r)"
| "get_member M_xsec r = V_float (xsec r)"
| "get_member M_genweight r = V_float (genweight r)"
| "get_member M_prod_vtx r = V_vec (prod_vtx r)"
| "get_member M_parent_dcy_mom r = V_vec (parent_dcy_mom r)"
| "get_member M_parent_dcy_mode r = V_int (parent_dcy_mode r)"
| "get_member M_parent_pdg r = V_int (parent_pdg r)"
| "get_member M_parent_dcy_E r = V_float (parent_dcy_E r)"
| "get_member M_imp_weight r = V_float (imp_weight r)"
| "get_member M_generator r = V_generator (generator r)"
| "get_member M_genVersion r = V_uint_vector (genVersion r)"
| "get_member M_genConfigString r = V_string (genConfigString r)"
| "get_member M_nprim r = V_int (nprim r)"
| "get_member M_prim r = V_particle_vector (prim r)"

datatype ('vec, 'part) assignment =
    Set_isvtxcont bool
  | Set_pdg c_int
  | Set_pdgorig c_int
  | Set_iscc bool
  | Set_mode ScatteringMode
  | Set_targetPDG c_int
  | Set_hitnuc c_int
  | Set_E c_float
  | Set_vtx 'vec
  | Set_momentum 'vec
  | Set_position 'vec
  | Set_time c_float
  | Set_bjorkenX c_float
  | Set_inelasticity c_float
  | Set_Q2 c_float
  | Set_q0 c_float
  | Set_modq c_float
  | Set_W c_float
  | Set_t c_float
  | Set_baseline c_float
  | Set_npiplus c_uint
  | Set_npiminus c_uint
  | Set_npizero c_uint
  | Set_nproton c_uint
  | Set_nneutron c_uint
  | Set_ischarm bool
  | Set_isseaquark bool
  | Set_resnum c_int
  | Set_xsec c_float
  | Set_genweight c_float
  | Set_prod_vtx 'vec
  | Set_parent_dcy_mom 'vec
  | Set_parent_dcy_mode c_int
  | Set_parent_pdg c_int
  | Set_parent_dcy_E c_float
  | Set_imp_weight c_float
  | Set_generator Generator
  | Set_genVersion "c_uint list"
  | Set_genConfigString string
  | Set_nprim c_int
  | Set_prim "'part list"

text \<open>The member that an assignment names, and the value it stores there.\<close>

primrec assigned_member :: "('vec, 'part) assignment \<Rightarrow> member" where
  "assigned_member (Set_isvtxcont v) = M_isvtxcont"
| "assigned_member (Set_pdg v) = M_pdg"
| "assigned_member (Set_pdgorig v) = M_pdgorig"
| "assigned_member (Set_iscc v) = M_iscc"
| "assigned_member (Set_mode v) = M_mode"
| "assigned_member (Set_targetPDG v) = M_targetPDG"
| "assigned_member (Set_hitnuc v) = M_hitnuc"
| "assigned_member (Set_E v) = M_E"
| "assigned_member (Set_vtx v) = M_vtx"
| "assigned_member (Set_momentum v) = M_momentum"
| "assigned_member (Set_position v) = M_position"
| "assigned_member (Set_time v) = M_time"
| "assigned_member (Set_bjorkenX v) = M_bjorkenX"
| "assigned_member (Set_inelasticity v) = M_inelasticity"
| "assigned_member (Set_Q2 v) = M_Q2"
| "assigned_member (Set_q0 v) = M_q0"
| "assigned_member (Set_modq v) = M_modq"
| "assigned_member (Set_W v) = M_W"
| "assigned_member (Set_t v) = M_t"
| "assigned_member (Set_baseline v) = M_baseline"
| "assigned_member (Set_npiplus v) = M_npiplus"
| "assigned_member (Set_npiminus v) = M_npiminus"
| "assigned_member (Set_npizero v) = M_npizero"
| "assigned_member (Set_nproton v) = M_nproton"
| "assigned_member (Set_nneutron v) = M_nneutron"
| "assigned_member (Set_ischarm v) = M_ischarm"
| "assigned_member (Set_isseaquark v) = M_isseaquark"
| "assigned_member (Set_resnum v) = M_resnum"
| "assigned_member (Set_xsec v) = M_xsec"
| "assigned_member (Set_genweight v) = M_genweight"
| "assigned_member (Set_prod_vtx v) = M_prod_vtx"
| "assigned_member (Set_parent_dcy_mom v) = M_parent_dcy_mom"
| "assigned_member (Set_parent_dcy_mode v) = M_parent_dcy_mode"
| "assigned_member (Set_parent_pdg v) = M_parent_pdg"
| "assigned_member (Set_parent_dcy_E v) = M_parent_dcy_E"
| "assigned_member (Set_imp_weight v) = M_imp_weight"
| "assigned_member (Set_generator v) = M_generator"
| "assigned_member (Set_genVersion v) = M_genVersion"
| "assigned_member (Set_genConfigString v) = M_genConfigString"
| "assigned_member (Set_nprim v) = M_nprim"
| "assigned_member (Set_prim v) = M_prim"

primrec assigned_value :: "('vec, 'part) assignment \<Rightarrow> ('vec, 'part) member_value" where
  "assigned_value (Set_isvtxcont v) = V_bool v"
| "assigned_value (Set_pdg v) = V_int v"
| "assigned_value (Set_pdgorig v) = V_int v"
| "assigned_value (Set_iscc v) = V_bool v"
| "assigned_value (Set_mode v) = V_mode v"
| "assigned_value (Set_targetPDG v) = V_int v"
| "assigned_value (Set_hitnuc v) = V_int v"
| "assigned_value (Set_E v) = V_float v"
| "assigned_value (Set_vtx v) = V_vec v"
| "assigned_value (Set_momentum v) = V_vec v"
| "assigned_value (Set_position v) = V_vec v"
| "assigned_value (Set_time v) = V_float v"
| "assigned_value (Set_bjorkenX v) = V_float v"
| "assigned_value (Set_inelasticity v) = V_float v"
| "assigned_value (Set_Q2 v) = V_float v"
| "assigned_value (Set_q0 v) = V_float v"
| "assigned_value (Set_modq v) = V_float v"
| "assigned_value (Set_W v) = V_float v"
| "assigned_value (Set_t v) = V_float v"
| "assigned_value (Set_baseline v) = V_float v"
| "assigned_value (Set_npiplus v) = V_uint v"
| "assigned_value (Set_npiminus v) = V_uint v"
| "assigned_value (Set_npizero v) = V_uint v"
| "assigned_value (Set_nproton v) = V_uint v"
| "assigned_value (Set_nneutron v) = V_uint v"
| "assigned_value (Set_ischarm v) = V_bool v"
| "assigned_value (Set_isseaquark v) = V_bool v"
| "assigned_value (Set_resnum v) = V_int v"
| "assigned_value (Set_xsec v) = V_float v"
| "assigned_value (Set_genweight v) = V_float v"
| "assigned_value (Set_prod_vtx v) = V_vec v"
| "assigned_value (Set_parent_dcy_mom v) = V_vec v"
| "assigned_value (Set_parent_dcy_mode v) = V_int v"
| "assigned_value (Set_parent_pdg v) = V_int v"
| "assigned_value (Set_parent_dcy_E v) = V_float v"
| "assigned_value (Set_imp_weight v) = V_float v"
| "assigned_value (Set_generator v) = V_generator v"
| "assigned_value (Set_genVersion v) = V_uint_vector v"
| "assigned_value (Set_genConfigString v) = V_string v"
| "assigned_value (Set_nprim v) = V_int v"
| "assigned_value (Set_prim v) = V_particle_vector v"

text \<open>The statement \<open>r.f = v\<close>: the record with the member replaced.\<close>

primrec assign ::
  "('vec, 'part) assignment \<Rightarrow> ('vec, 'part) SRTrueInteraction \<Rightarrow> ('vec, 'part) SRTrueInteraction" where
  "assign (Set_isvtxcont v) r = r\<lparr>isvtxcont := v\<rparr>"
| "assign (Set_pdg v) r = r\<lparr>pdg := v\<rparr>"
| "assign (Set_pdgorig v) r = r\<lparr>pdgorig := v\<rparr>"
| "assign (Set_iscc v) r = r\<lparr>iscc := v\<rparr>"
| "assign (Set_mode v) r = r\<lparr>mode := v\<rparr>"
| "assign (Set_targetPDG v) r = r\<lparr>targetPDG := v\<rparr>"
| "assign (Set_hitnuc v) r = r\<lparr>hitnuc := v\<rparr>"
| "assign (Set_E v) r = r\<lparr>E := v\<rparr>"
| "assign (Set_vtx v) r = r\<lparr>vtx := v\<rparr>"
| "assign (Set_momentum v) r = r\<lparr>momentum := v\<rparr>"
| "assign (Set_position v) r = r\<lparr>position := v\<rparr>"
| "assign (Set_time v) r = r\<lparr>time := v\<rparr>"
| "assign (Set_bjorkenX v) r = r\<lparr>bjorkenX := v\<rparr>"
| "assign (Set_inelasticity v) r = r\<lparr>inelasticity := v\<rparr>"
| "assign (Set_Q2 v) r = r\<lparr>Q2 := v\<rparr>"
| "assign (Set_q0 v) r = r\<lparr>q0 := v\<rparr>"
| "assign (Set_modq v) r = r\<lparr>modq := v\<rparr>"
| "assign (Set_W v) r = r\<lparr>W := v\<rparr>"
| "assign (Set_t v) r = r\<lparr>t := v\<rparr>"
| "assign (Set_baseline v) r = r\<lparr>baseline := v\<rparr>"
| "assign (Set_npiplus v) r = r\<lparr>npiplus := v\<rparr>"
| "assign (Set_npiminus v) r = r\<lparr>npiminus := v\<rparr>"
| "assign (Set_npizero v) r = r\<lparr>npizero := v\<rparr>"
| "assign (Set_nproton v) r = r\<lparr>nproton := v\<rparr>"
| "assign (Set_nneutron v) r = r\<lparr>nneutron := v\<rparr>"
| "assign (Set_ischarm v) r = r\<lparr>ischarm := v\<rparr>"
| "assign (Set_isseaquark v) r = r\<lparr>isseaquark := v\<rparr>"
| "assign (Set_resnum v) r = r\<lparr>resnum := v\<rparr>"
| "assign (Set_xsec v) r = r\<lparr>xsec := v\<rparr>"
| "assign (Set_genweight v) r = r\<lparr>genweight := v\<rparr>"
| "assign (Set_prod_vtx v) r = r\<lparr>prod_vtx := v\<rparr>"
| "assign (Set_parent_dcy_mom v) r = r\<lparr>parent_dcy_mom := v\<rparr>"
| "assign (Set_parent_dcy_mode v) r = r\<lparr>parent_dcy_mode := v\<rparr>"
| "assign (Set_parent_pdg v) r = r\<lparr>parent_pdg := v\<rparr>"
| "assign (Set_parent_dcy_E v) r = r\<lparr>parent_dcy_E := v\<rparr>"
| "assign (Set_imp_weight v) r = r\<lparr>imp_weight := v\<rparr>"
| "assign (Set_generator v) r = r\<lparr>generator := v\<rparr>"
| "assign (Set_genVersion v) r = r\<lparr>genVersion := v\<rparr>"
| "assign (Set_genConfigString v) r = r\<lparr>genConfigString := v\<rparr>"
| "assign (Set_nprim v) r = r\<lparr>nprim := v\<rparr>"
| "assign (Set_prim v) r = r\<lparr>prim := v\<rparr>"

subsection \<open>The daughter count and the daughter sequence\<close>

text \<open>
  \<open>nprim\<close> is documented as the number of primary daughters and \<open>prim\<close> as the
  primary daughters. The two members agree when the count, read as a signed integer,
  is the length of the sequence.
\<close>

definition nprim_consistent :: "('vec, 'part) SRTrueInteraction \<Rightarrow> bool" where
  "nprim_consistent r = (sint (nprim r) = int (length (prim r)))"

subsection \<open>Integer members read as integers\<close>

text \<open>
  The integer that a member of integer type holds: a member declared \<open>int\<close> is read in
  two's complement, a member declared \<open>unsigned int\<close> as an unsigned number. A member
  of any other type holds no integer.
\<close>

primrec integer_value :: "('vec, 'part) member_value \<Rightarrow> int option" where
  "integer_value (V_bool b) = None"
| "integer_value (V_int v) = Some (sint v)"
| "integer_value (V_uint v) = Some (uint v)"
| "integer_value (V_float v) = None"
| "integer_value (V_vec v) = None"
| "integer_value (V_mode v) = None"
| "integer_value (V_generator v) = None"
| "integer_value (V_uint_vector v) = None"
| "integer_value (V_string v) = None"
| "integer_value (V_particle_vector v) = None"

subsection \<open>Client programs\<close>

text \<open>
  The members of the class, in declaration order.
\<close>

definition members :: "member list" where
  "members =
     [M_isvtxcont, M_pdg, M_pdgorig, M_iscc, M_mode, M_targetPDG, M_hitnuc, M_E, M_vtx,
      M_momentum, M_position, M_time, M_bjorkenX, M_inelasticity, M_Q2, M_q0, M_modq,
      M_W, M_t, M_baseline, M_npiplus, M_npiminus, M_npizero, M_nproton, M_nneutron,
      M_ischarm, M_isseaquark, M_resnum, M_xsec, M_genweight, M_prod_vtx,
      M_parent_dcy_mom, M_parent_dcy_mode, M_parent_pdg, M_parent_dcy_E, M_imp_weight,
      M_generator, M_genVersion, M_genConfigString, M_nprim, M_prim]"

text \<open>
  A statement either completes, giving the record, or throws, which is \<open>None\<close>. The
  class has no user-provided constructor, assignment operator, setter or check, and the
  header has no \<open>throw\<close> and no assertion: the default construction and each member
  assignment complete. Exhaustion of storage inside \<open>std::vector\<close> and \<open>std::string\<close>
  is not modelled. A client program constructs a record and runs member assignments in
  order, stopping at the first statement that throws.
\<close>

definition construct ::
  "c_float \<Rightarrow> 'vec \<Rightarrow> ('vec, 'part) SRTrueInteraction option" where
  "construct NaN vec0 = Some (SRTrueInteraction_default NaN vec0)"

definition assign_stmt ::
  "('vec, 'part) assignment \<Rightarrow> ('vec, 'part) SRTrueInteraction
     \<Rightarrow> ('vec, 'part) SRTrueInteraction option" where
  "assign_stmt a r = Some (assign a r)"

fun assign_stmts ::
  "('vec, 'part) assignment list \<Rightarrow> ('vec, 'part) SRTrueInteraction
     \<Rightarrow> ('vec, 'part) SRTrueInteraction option" where
  "assign_stmts [] r = Some r"
| "assign_stmts (a # stmts) r =
     (case assign_stmt a r of None \<Rightarrow> None | Some r' \<Rightarrow> assign_stmts stmts r')"

definition client_program ::
  "c_float \<Rightarrow> 'vec \<Rightarrow> ('vec, 'part) assignment list
     \<Rightarrow> ('vec, 'part) SRTrueInteraction option" where
  "client_program NaN vec0 stmts =
     (case construct NaN vec0 of None \<Rightarrow> None | Some r \<Rightarrow> assign_stmts stmts r)"

subsection \<open>Comparing and classifying \<open>float\<close> values\<close>

text \<open>
  The IEEE-754 binary32 reading of a bit pattern: a NaN has all eight exponent bits set
  and a fraction that is not zero; a zero has every bit but the sign clear. The
  comparison \<open>a == b\<close> is false when either operand is a NaN, true for two zeros of
  either sign, and otherwise compares the bit patterns.
\<close>

definition float_exponent :: "c_float \<Rightarrow> 32 word" where
  "float_exponent a = and (drop_bit 23 a) 0xFF"

definition float_fraction :: "c_float \<Rightarrow> 32 word" where
  "float_fraction a = and a 0x7FFFFF"

definition isnan :: "c_float \<Rightarrow> bool" where
  "isnan a = (float_exponent a = 0xFF \<and> float_fraction a \<noteq> 0)"

definition float_is_zero :: "c_float \<Rightarrow> bool" where
  "float_is_zero a = (and a 0x7FFFFFFF = 0)"

definition float_eq :: "c_float \<Rightarrow> c_float \<Rightarrow> bool" where
  "float_eq a b =
     (\<not> isnan a \<and> \<not> isnan b \<and> (a = b \<or> (float_is_zero a \<and> float_is_zero b)))"

section \<open>Default construction\<close>

text \<open>
  C1. After default construction every scalar floating-point member (E, time, bjorkenX,
  inelasticity, Q2, q0, modq, W, t, baseline, xsec, genweight, parent_dcy_E, imp_weight)
  holds exactly the bit pattern of the class constant \<open>NaN\<close>, the signalling NaN that
  marks a value as not computed.
\<close>

theorem default_floats_are_NaN:
  "E (SRTrueInteraction_default NaN vec0) = NaN
   \<and> time (SRTrueInteraction_default NaN vec0) = NaN
   \<and> bjorkenX (SRTrueInteraction_default NaN vec0) = NaN
   \<and> inelasticity (SRTrueInteraction_default NaN vec0) = NaN
   \<and> Q2 (SRTrueInteraction_default NaN vec0) = NaN
   \<and> q0 (SRTrueInteraction_default NaN vec0) = NaN
   \<and> modq (SRTrueInteraction_default NaN vec0) = NaN
   \<and> W (SRTrueInteraction_default NaN vec0) = NaN
   \<and> t (SRTrueInteraction_default NaN vec0) = NaN
   \<and> baseline (SRTrueInteraction_default NaN vec0) = NaN
   \<and> xsec (SRTrueInteraction_default NaN vec0) = NaN
   \<and> genweight (SRTrueInteraction_default NaN vec0) = NaN
   \<and> parent_dcy_E (SRTrueInteraction_default NaN vec0) = NaN
   \<and> imp_weight (SRTrueInteraction_default NaN vec0) = NaN"
  by (simp add: SRTrueInteraction_default_def)

section \<open>Properties of member access\<close>

text \<open>
  The members listed by \<open>member\<close> are all the members of the class: two records that
  agree on every read are the same record.
\<close>

lemma get_member_ext:
  assumes "\<And>m. get_member m r = get_member m r'"
  shows "r = r'"
proof (rule SRTrueInteraction.equality)
  show "isvtxcont r = isvtxcont r'" using assms [of M_isvtxcont] by simp
  show "pdg r = pdg r'" using assms [of M_pdg] by simp
  show "pdgorig r = pdgorig r'" using assms [of M_pdgorig] by simp
  show "iscc r = iscc r'" using assms [of M_iscc] by simp
  show "mode r = mode r'" using assms [of M_mode] by simp
  show "targetPDG r = targetPDG r'" using assms [of M_targetPDG] by simp
  show "hitnuc r = hitnuc r'" using assms [of M_hitnuc] by simp
  show "E r = E r'" using assms [of M_E] by simp
  show "vtx r = vtx r'" using assms [of M_vtx] by simp
  show "momentum r = momentum r'" using assms [of M_momentum] by simp
  show "position r = position r'" using assms [of M_position] by simp
  show "time r = time r'" using assms [of M_time] by simp
  show "bjorkenX r = bjorkenX r'" using assms [of M_bjorkenX] by simp
  show "inelasticity r = inelasticity r'" using assms [of M_inelasticity] by simp
  show "Q2 r = Q2 r'" using assms [of M_Q2] by simp
  show "q0 r = q0 r'" using assms [of M_q0] by simp
  show "modq r = modq r'" using assms [of M_modq] by simp
  show "W r = W r'" using assms [of M_W] by simp
  show "t r = t r'" using assms [of M_t] by simp
  show "baseline r = baseline r'" using assms [of M_baseline] by simp
  show "npiplus r = npiplus r'" using assms [of M_npiplus] by simp
  show "npiminus r = npiminus r'" using assms [of M_npiminus] by simp
  show "npizero r = npizero r'" using assms [of M_npizero] by simp
  show "nproton r = nproton r'" using assms [of M_nproton] by simp
  show "nneutron r = nneutron r'" using assms [of M_nneutron] by simp
  show "ischarm r = ischarm r'" using assms [of M_ischarm] by simp
  show "isseaquark r = isseaquark r'" using assms [of M_isseaquark] by simp
  show "resnum r = resnum r'" using assms [of M_resnum] by simp
  show "xsec r = xsec r'" using assms [of M_xsec] by simp
  show "genweight r = genweight r'" using assms [of M_genweight] by simp
  show "prod_vtx r = prod_vtx r'" using assms [of M_prod_vtx] by simp
  show "parent_dcy_mom r = parent_dcy_mom r'" using assms [of M_parent_dcy_mom] by simp
  show "parent_dcy_mode r = parent_dcy_mode r'" using assms [of M_parent_dcy_mode] by simp
  show "parent_pdg r = parent_pdg r'" using assms [of M_parent_pdg] by simp
  show "parent_dcy_E r = parent_dcy_E r'" using assms [of M_parent_dcy_E] by simp
  show "imp_weight r = imp_weight r'" using assms [of M_imp_weight] by simp
  show "generator r = generator r'" using assms [of M_generator] by simp
  show "genVersion r = genVersion r'" using assms [of M_genVersion] by simp
  show "genConfigString r = genConfigString r'" using assms [of M_genConfigString] by simp
  show "nprim r = nprim r'" using assms [of M_nprim] by simp
  show "prim r = prim r'" using assms [of M_prim] by simp
qed simp

text \<open>A length below \<open>2^31\<close> converts to \<open>int\<close> without wrapping.\<close>

lemma sint_of_length:
  assumes "length ps < 2 ^ 31"
  shows "sint (of_nat (length ps) :: c_int) = int (length ps)"
proof -
  have "sint (of_nat (length ps) :: c_int) = signed_take_bit 31 (int (length ps))"
    by (simp add: signed_of_nat)
  also have "\<dots> = int (length ps)"
    using assms by (simp add: signed_take_bit_int_eq_self)
  finally show ?thesis .
qed

text \<open>An assignment to a member other than \<open>nprim\<close> and \<open>prim\<close> leaves both alone.\<close>

lemma assign_other_keeps_nprim_prim:
  assumes "assigned_member a \<noteq> M_nprim" and "assigned_member a \<noteq> M_prim"
  shows "nprim (assign a r) = nprim r \<and> prim (assign a r) = prim r"
  using assms by (cases a) simp_all

text \<open>A sequence of member assignments completes, whatever the record it starts from.\<close>

lemma assign_stmts_completes: "\<exists>r'. assign_stmts stmts r = Some r'"
  by (induction stmts arbitrary: r) (simp_all add: assign_stmt_def)

text \<open>Updating every member of a record with that of \<open>s\<close> gives \<open>s\<close>.\<close>

lemma update_every_member:
  "(r :: ('vec, 'part) SRTrueInteraction)\<lparr>isvtxcont := isvtxcont s, pdg := pdg s, pdgorig := pdgorig s, iscc := iscc s,
        mode := mode s, targetPDG := targetPDG s, hitnuc := hitnuc s, E := E s,
        vtx := vtx s, momentum := momentum s, position := position s, time := time s,
        bjorkenX := bjorkenX s, inelasticity := inelasticity s, Q2 := Q2 s, q0 := q0 s,
        modq := modq s, W := W s, t := t s, baseline := baseline s, npiplus := npiplus s,
        npiminus := npiminus s, npizero := npizero s, nproton := nproton s,
        nneutron := nneutron s, ischarm := ischarm s, isseaquark := isseaquark s,
        resnum := resnum s, xsec := xsec s, genweight := genweight s,
        prod_vtx := prod_vtx s, parent_dcy_mom := parent_dcy_mom s,
        parent_dcy_mode := parent_dcy_mode s, parent_pdg := parent_pdg s,
        parent_dcy_E := parent_dcy_E s, imp_weight := imp_weight s,
        generator := generator s, genVersion := genVersion s,
        genConfigString := genConfigString s, nprim := nprim s, prim := prim s\<rparr> = s"
  by (rule SRTrueInteraction.equality) simp_all

text \<open>Assigning every member of \<open>s\<close> in turn turns any record into \<open>s\<close>.\<close>

lemma assign_every_member:
  "assign_stmts
       [Set_isvtxcont (isvtxcont s), Set_pdg (pdg s), Set_pdgorig (pdgorig s),
        Set_iscc (iscc s), Set_mode (mode s), Set_targetPDG (targetPDG s),
        Set_hitnuc (hitnuc s), Set_E (E s), Set_vtx (vtx s), Set_momentum (momentum s),
        Set_position (position s), Set_time (time s), Set_bjorkenX (bjorkenX s),
        Set_inelasticity (inelasticity s), Set_Q2 (Q2 s), Set_q0 (q0 s),
        Set_modq (modq s), Set_W (W s), Set_t (t s), Set_baseline (baseline s),
        Set_npiplus (npiplus s), Set_npiminus (npiminus s), Set_npizero (npizero s),
        Set_nproton (nproton s), Set_nneutron (nneutron s), Set_ischarm (ischarm s),
        Set_isseaquark (isseaquark s), Set_resnum (resnum s), Set_xsec (xsec s),
        Set_genweight (genweight s), Set_prod_vtx (prod_vtx s),
        Set_parent_dcy_mom (parent_dcy_mom s), Set_parent_dcy_mode (parent_dcy_mode s),
        Set_parent_pdg (parent_pdg s), Set_parent_dcy_E (parent_dcy_E s),
        Set_imp_weight (imp_weight s), Set_generator (generator s),
        Set_genVersion (genVersion s), Set_genConfigString (genConfigString s),
        Set_nprim (nprim s), Set_prim (prim s)]
       r = Some s"
  by (simp only: assign_stmts.simps assign_stmt_def assign.simps option.case
      update_every_member)

text \<open>So the client program that assigns every member of \<open>s\<close> ends in \<open>s\<close>.\<close>

lemma client_program_reaches:
  "client_program NaN vec0
       [Set_isvtxcont (isvtxcont s), Set_pdg (pdg s), Set_pdgorig (pdgorig s),
        Set_iscc (iscc s), Set_mode (mode s), Set_targetPDG (targetPDG s),
        Set_hitnuc (hitnuc s), Set_E (E s), Set_vtx (vtx s), Set_momentum (momentum s),
        Set_position (position s), Set_time (time s), Set_bjorkenX (bjorkenX s),
        Set_inelasticity (inelasticity s), Set_Q2 (Q2 s), Set_q0 (q0 s),
        Set_modq (modq s), Set_W (W s), Set_t (t s), Set_baseline (baseline s),
        Set_npiplus (npiplus s), Set_npiminus (npiminus s), Set_npizero (npizero s),
        Set_nproton (nproton s), Set_nneutron (nneutron s), Set_ischarm (ischarm s),
        Set_isseaquark (isseaquark s), Set_resnum (resnum s), Set_xsec (xsec s),
        Set_genweight (genweight s), Set_prod_vtx (prod_vtx s),
        Set_parent_dcy_mom (parent_dcy_mom s), Set_parent_dcy_mode (parent_dcy_mode s),
        Set_parent_pdg (parent_pdg s), Set_parent_dcy_E (parent_dcy_E s),
        Set_imp_weight (imp_weight s), Set_generator (generator s),
        Set_genVersion (genVersion s), Set_genConfigString (genConfigString s),
        Set_nprim (nprim s), Set_prim (prim s)]
     = Some s"
  by (simp only: client_program_def construct_def option.case assign_every_member)

text \<open>
  C2, as the code has it. After default construction the plain integer members pdg,
  pdgorig, targetPDG, hitnuc, resnum and parent_pdg and the five unsigned multiplicity
  counts are zero, the generator version and the configuration string are empty, and
  parent_dcy_mode is \<open>-1\<close>, the value of its default member initialiser.
\<close>

theorem default_integers:
  "sint (pdg (SRTrueInteraction_default NaN vec0)) = 0
   \<and> sint (pdgorig (SRTrueInteraction_default NaN vec0)) = 0
   \<and> sint (targetPDG (SRTrueInteraction_default NaN vec0)) = 0
   \<and> sint (hitnuc (SRTrueInteraction_default NaN vec0)) = 0
   \<and> sint (resnum (SRTrueInteraction_default NaN vec0)) = 0
   \<and> sint (parent_dcy_mode (SRTrueInteraction_default NaN vec0)) = - 1
   \<and> sint (parent_pdg (SRTrueInteraction_default NaN vec0)) = 0
   \<and> unat (npiplus (SRTrueInteraction_default NaN vec0)) = 0
   \<and> unat (npiminus (SRTrueInteraction_default NaN vec0)) = 0
   \<and> unat (npizero (SRTrueInteraction_default NaN vec0)) = 0
   \<and> unat (nproton (SRTrueInteraction_default NaN vec0)) = 0
   \<and> unat (nneutron (SRTrueInteraction_default NaN vec0)) = 0
   \<and> genVersion (SRTrueInteraction_default NaN vec0) = []
   \<and> genConfigString (SRTrueInteraction_default NaN vec0) = []"
  by (simp add: SRTrueInteraction_default_def)

text \<open>
  C2 as stated fails: the default-constructed record, taken with the signalling NaN
  \<open>0x7FA00000\<close>, does not have all its plain integer members zero, since
  parent_dcy_mode is \<open>-1\<close>.
\<close>

theorem default_integers_all_zero_counterexample:
  "\<not> (sint (pdg (SRTrueInteraction_default 0x7FA00000 () :: (unit, unit) SRTrueInteraction)) = 0
      \<and> sint (pdgorig (SRTrueInteraction_default 0x7FA00000 () :: (unit, unit) SRTrueInteraction)) = 0
      \<and> sint (targetPDG (SRTrueInteraction_default 0x7FA00000 () :: (unit, unit) SRTrueInteraction)) = 0
      \<and> sint (hitnuc (SRTrueInteraction_default 0x7FA00000 () :: (unit, unit) SRTrueInteraction)) = 0
      \<and> sint (resnum (SRTrueInteraction_default 0x7FA00000 () :: (unit, unit) SRTrueInteraction)) = 0
      \<and> sint (parent_dcy_mode (SRTrueInteraction_default 0x7FA00000 () :: (unit, unit) SRTrueInteraction)) = 0
      \<and> sint (parent_pdg (SRTrueInteraction_default 0x7FA00000 () :: (unit, unit) SRTrueInteraction)) = 0
      \<and> unat (npiplus (SRTrueInteraction_default 0x7FA00000 () :: (unit, unit) SRTrueInteraction)) = 0
      \<and> unat (npiminus (SRTrueInteraction_default 0x7FA00000 () :: (unit, unit) SRTrueInteraction)) = 0
      \<and> unat (npizero (SRTrueInteraction_default 0x7FA00000 () :: (unit, unit) SRTrueInteraction)) = 0
      \<and> unat (nproton (SRTrueInteraction_default 0x7FA00000 () :: (unit, unit) SRTrueInteraction)) = 0
      \<and> unat (nneutron (SRTrueInteraction_default 0x7FA00000 () :: (unit, unit) SRTrueInteraction)) = 0
      \<and> genVersion (SRTrueInteraction_default 0x7FA00000 () :: (unit, unit) SRTrueInteraction) = []
      \<and> genConfigString (SRTrueInteraction_default 0x7FA00000 () :: (unit, unit) SRTrueInteraction) = [])"
  by (simp add: SRTrueInteraction_default_def)

section \<open>The enumerations\<close>

text \<open>
  C3. Every enumerator of Generator and of ScatteringMode has the integer value of the
  table: Generator kUnknownGenerator 0, kGENIE 1, kGIBUU 2, kNEUT 3; ScatteringMode
  kUnknownMode -1, kQE 0, kRes 1, kDIS 2, kCoh 3, kCohElastic 4, kElectronScattering 5,
  kIMDAnnihilation 6, kInverseBetaDecay 7, kGlashowResonance 8, kAMNuGamma 9, kMEC 10,
  kDiffractive 11, kEM 12, kWeakMix 13. The two lists of enumerators carry these values
  in declaration order.
\<close>

theorem enumerator_values:
  "Generator_int kUnknownGenerator = 0
   \<and> Generator_int kGENIE = 1
   \<and> Generator_int kGIBUU = 2
   \<and> Generator_int kNEUT = 3
   \<and> ScatteringMode_int kUnknownMode = - 1
   \<and> ScatteringMode_int kQE = 0
   \<and> ScatteringMode_int kRes = 1
   \<and> ScatteringMode_int kDIS = 2
   \<and> ScatteringMode_int kCoh = 3
   \<and> ScatteringMode_int kCohElastic = 4
   \<and> ScatteringMode_int kElectronScattering = 5
   \<and> ScatteringMode_int kIMDAnnihilation = 6
   \<and> ScatteringMode_int kInverseBetaDecay = 7
   \<and> ScatteringMode_int kGlashowResonance = 8
   \<and> ScatteringMode_int kAMNuGamma = 9
   \<and> ScatteringMode_int kMEC = 10
   \<and> ScatteringMode_int kDiffractive = 11
   \<and> ScatteringMode_int kEM = 12
   \<and> ScatteringMode_int kWeakMix = 13
   \<and> map Generator_int Generator_enumerators = [0, 1, 2, 3]
   \<and> map ScatteringMode_int ScatteringMode_enumerators =
       [- 1, 0, 1, 2, 3, 4, 5, 6, 7, 8, 9, 10, 11, 12, 13]"
  by (simp add: Generator_int_def ScatteringMode_int_def Generator_enumerators_def
    ScatteringMode_enumerators_def kUnknownGenerator_def kGENIE_def kGIBUU_def kNEUT_def kUnknownMode_def kQE_def kRes_def kDIS_def
    kCoh_def kCohElastic_def kElectronScattering_def kIMDAnnihilation_def kInverseBetaDecay_def
    kGlashowResonance_def kAMNuGamma_def kMEC_def kDiffractive_def kEM_def kWeakMix_def)

section \<open>Default construction, continued\<close>

text \<open>
  C4. After default construction the boolean members isvtxcont, iscc, ischarm and
  isseaquark are false, generator is kUnknownGenerator, mode is kUnknownMode, the
  daughter sequence prim is empty and the daughter count nprim is zero.
\<close>

theorem default_flags_enums_daughters:
  "\<not> isvtxcont (SRTrueInteraction_default NaN vec0)
   \<and> \<not> iscc (SRTrueInteraction_default NaN vec0)
   \<and> \<not> ischarm (SRTrueInteraction_default NaN vec0)
   \<and> \<not> isseaquark (SRTrueInteraction_default NaN vec0)
   \<and> generator (SRTrueInteraction_default NaN vec0) = kUnknownGenerator
   \<and> mode (SRTrueInteraction_default NaN vec0) = kUnknownMode
   \<and> prim (SRTrueInteraction_default NaN vec0) = []
   \<and> sint (nprim (SRTrueInteraction_default NaN vec0)) = 0"
  by (simp add: SRTrueInteraction_default_def)

section \<open>Assignments\<close>

text \<open>
  C6. No operation of the record fails. Default construction completes and gives the
  sentinel-default state and nothing else: read member by member in declaration order,
  the constructed record holds false, zero, the sentinel NaN, the default vector, the
  two unknown tags, \<open>-1\<close> for parent_dcy_mode, and empty sequences. Every member
  assignment completes and takes effect, and every client program, a construction
  followed by any sequence of member assignments, completes. No state is refused:
  every value of the record type is the result of such a program. In particular the
  malformed states are reached without an error: a daughter count of 2 with one entry
  in the daughter sequence, and a mode and a generator holding 99, which is no
  enumerator.
\<close>

theorem operations_complete_malformed_representable:
  "construct NaN vec0 = Some (SRTrueInteraction_default NaN vec0)
   \<and> map (\<lambda>m. get_member m (SRTrueInteraction_default NaN vec0)) members =
       [V_bool False, V_int 0, V_int 0, V_bool False, V_mode kUnknownMode, V_int 0,
        V_int 0, V_float NaN, V_vec vec0, V_vec vec0, V_vec vec0, V_float NaN,
        V_float NaN, V_float NaN, V_float NaN, V_float NaN, V_float NaN, V_float NaN,
        V_float NaN, V_float NaN, V_uint 0, V_uint 0, V_uint 0, V_uint 0, V_uint 0,
        V_bool False, V_bool False, V_int 0, V_float NaN, V_float NaN, V_vec vec0,
        V_vec vec0, V_int (- 1), V_int 0, V_float NaN, V_float NaN,
        V_generator kUnknownGenerator, V_uint_vector [], V_string [], V_int 0,
        V_particle_vector []]
   \<and> (\<exists>r'. assign_stmt a r = Some r'
          \<and> get_member (assigned_member a) r' = assigned_value a)
   \<and> (\<exists>r'. client_program NaN vec0 stmts = Some r')
   \<and> (\<exists>stmts'. client_program NaN vec0 stmts' = Some s)
   \<and> (\<exists>r'. client_program NaN vec0 [Set_prim [p], Set_nprim 2] = Some r'
          \<and> sint (nprim r') = 2 \<and> length (prim r') = 1 \<and> \<not> nprim_consistent r')
   \<and> (\<exists>r'. client_program NaN vec0 [Set_mode (ScatteringMode 99)] = Some r'
          \<and> mode r' = ScatteringMode 99)
   \<and> ScatteringMode 99 \<notin> set ScatteringMode_enumerators
   \<and> (\<exists>r'. client_program NaN vec0 [Set_generator (Generator 99)] = Some r'
          \<and> generator r' = Generator 99)
   \<and> Generator 99 \<notin> set Generator_enumerators"
proof (intro conjI)
  show "construct NaN vec0 = Some (SRTrueInteraction_default NaN vec0)"
    by (simp add: construct_def)
next
  show "map (\<lambda>m. get_member m (SRTrueInteraction_default NaN vec0)) members =
       [V_bool False, V_int 0, V_int 0, V_bool False, V_mode kUnknownMode, V_int 0,
        V_int 0, V_float NaN, V_vec vec0, V_vec vec0, V_vec vec0, V_float NaN,
        V_float NaN, V_float NaN, V_float NaN, V_float NaN, V_float NaN, V_float NaN,
        V_float NaN, V_float NaN, V_uint 0, V_uint 0, V_uint 0, V_uint 0, V_uint 0,
        V_bool False, V_bool False, V_int 0, V_float NaN, V_float NaN, V_vec vec0,
        V_vec vec0, V_int (- 1), V_int 0, V_float NaN, V_float NaN,
        V_generator kUnknownGenerator, V_uint_vector [], V_string [], V_int 0,
        V_particle_vector []]"
    by (simp add: members_def SRTrueInteraction_default_def)
next
  have "get_member (assigned_member a) (assign a r) = assigned_value a"
    by (cases a) simp_all
  then show "\<exists>r'. assign_stmt a r = Some r'
      \<and> get_member (assigned_member a) r' = assigned_value a"
    by (simp add: assign_stmt_def)
next
  show "\<exists>r'. client_program NaN vec0 stmts = Some r'"
    using assign_stmts_completes [of stmts "SRTrueInteraction_default NaN vec0"]
    by (simp add: client_program_def construct_def)
next
  show "\<exists>stmts'. client_program NaN vec0 stmts' = Some s"
    using client_program_reaches [of NaN vec0 s]
    by (rule exI [of "\<lambda>l. client_program NaN vec0 l = Some s"])
next
  show "\<exists>r'. client_program NaN vec0 [Set_prim [p], Set_nprim 2] = Some r'
      \<and> sint (nprim r') = 2 \<and> length (prim r') = 1 \<and> \<not> nprim_consistent r'"
    by (simp add: client_program_def construct_def assign_stmt_def nprim_consistent_def)
next
  show "\<exists>r'. client_program NaN vec0 [Set_mode (ScatteringMode 99)] = Some r'
      \<and> mode r' = ScatteringMode 99"
    by (simp add: client_program_def construct_def assign_stmt_def)
next
  show "ScatteringMode 99 \<notin> set ScatteringMode_enumerators"
    by (simp add: ScatteringMode_enumerators_def kUnknownGenerator_def kGENIE_def kGIBUU_def kNEUT_def kUnknownMode_def kQE_def kRes_def kDIS_def
      kCoh_def kCohElastic_def kElectronScattering_def kIMDAnnihilation_def kInverseBetaDecay_def
      kGlashowResonance_def kAMNuGamma_def kMEC_def kDiffractive_def kEM_def kWeakMix_def)
next
  show "\<exists>r'. client_program NaN vec0 [Set_generator (Generator 99)] = Some r'
      \<and> generator r' = Generator 99"
    by (simp add: client_program_def construct_def assign_stmt_def)
next
  show "Generator 99 \<notin> set Generator_enumerators"
    by (simp add: Generator_enumerators_def kUnknownGenerator_def kGENIE_def kGIBUU_def kNEUT_def kUnknownMode_def kQE_def kRes_def kDIS_def
      kCoh_def kCohElastic_def kElectronScattering_def kIMDAnnihilation_def kInverseBetaDecay_def
      kGlashowResonance_def kAMNuGamma_def kMEC_def kDiffractive_def kEM_def kWeakMix_def)
qed

text \<open>
  C7, as the code has it. The daughter count equals the length of the daughter sequence
  after default construction. The record does not maintain the equality: nprim and prim
  are independent public members. An assignment to any other member preserves it, and
  so does assigning prim a sequence of fewer than \<open>2^31\<close> entries followed by nprim
  its length.
\<close>

theorem nprim_consistent_default_and_preserved:
  "nprim_consistent (SRTrueInteraction_default NaN vec0)
   \<and> (nprim_consistent r \<and> assigned_member a \<noteq> M_nprim \<and> assigned_member a \<noteq> M_prim
        \<longrightarrow> nprim_consistent (assign a r))
   \<and> (length ps < 2 ^ 31
        \<longrightarrow> nprim_consistent (assign (Set_nprim (of_nat (length ps))) (assign (Set_prim ps) r)))"
proof (intro conjI impI)
  show "nprim_consistent (SRTrueInteraction_default NaN vec0)"
    by (simp add: nprim_consistent_def SRTrueInteraction_default_def)
next
  assume "nprim_consistent r \<and> assigned_member a \<noteq> M_nprim \<and> assigned_member a \<noteq> M_prim"
  then show "nprim_consistent (assign a r)"
    using assign_other_keeps_nprim_prim [of a r] by (simp add: nprim_consistent_def)
next
  assume "length ps < 2 ^ 31"
  then show "nprim_consistent (assign (Set_nprim (of_nat (length ps))) (assign (Set_prim ps) r))"
    by (simp add: nprim_consistent_def sint_of_length)
qed

theorem nprim_consistent_default_and_preserved_witness:
  "nprim_consistent (SRTrueInteraction_default 0x7FA00000 () :: (unit, unit) SRTrueInteraction)
   \<and> assigned_member (Set_E 0 :: (unit, unit) assignment) \<noteq> M_nprim
   \<and> assigned_member (Set_E 0 :: (unit, unit) assignment) \<noteq> M_prim
   \<and> nprim_consistent (assign (Set_E 0) (SRTrueInteraction_default 0x7FA00000 () :: (unit, unit) SRTrueInteraction))
   \<and> length [(), ()] < 2 ^ 31
   \<and> nprim_consistent
        (assign (Set_nprim (of_nat (length [(), ()]))) (assign (Set_prim [(), ()]) (SRTrueInteraction_default 0x7FA00000 () :: (unit, unit) SRTrueInteraction)))"
proof -
  have other: "assigned_member (Set_E 0 :: (unit, unit) assignment) \<noteq> M_nprim
      \<and> assigned_member (Set_E 0 :: (unit, unit) assignment) \<noteq> M_prim"
    by simp
  have short: "length [(), ()] < 2 ^ 31"
    by simp
  note inst = nprim_consistent_default_and_preserved
    [of "0x7FA00000" "()" "(SRTrueInteraction_default 0x7FA00000 () :: (unit, unit) SRTrueInteraction)" "Set_E 0" "[(), ()]"]
  from inst have dflt: "nprim_consistent (SRTrueInteraction_default 0x7FA00000 () :: (unit, unit) SRTrueInteraction)"
    by (rule conjunct1)
  from inst dflt other have "nprim_consistent (assign (Set_E 0) (SRTrueInteraction_default 0x7FA00000 () :: (unit, unit) SRTrueInteraction))"
    by blast
  moreover from inst short have "nprim_consistent
      (assign (Set_nprim (of_nat (length [(), ()]))) (assign (Set_prim [(), ()]) (SRTrueInteraction_default 0x7FA00000 () :: (unit, unit) SRTrueInteraction)))"
    by blast
  ultimately show ?thesis
    using dflt other short by blast
qed

text \<open>
  C7 as stated fails: the record made by default construction and the assignments
  \<open>prim = {p}\<close>, \<open>nprim = 2\<close> has a daughter count of 2 and one daughter.
\<close>

theorem nprim_equals_length_counterexample:
  "\<not> nprim_consistent (assign (Set_nprim 2) (assign (Set_prim [()]) (SRTrueInteraction_default 0x7FA00000 () :: (unit, unit) SRTrueInteraction)))"
  by (simp add: nprim_consistent_def)

text \<open>
  C8. An assignment to one member leaves every other member as it was: for every
  record, every assignment and every member other than the assigned one, the member
  reads the same before and after.
\<close>

theorem assign_frame:
  "m \<noteq> assigned_member a \<Longrightarrow> get_member m (assign a r) = get_member m r"
  by (cases a; cases m; simp)

theorem assign_frame_witness:
  "M_hitnuc \<noteq> assigned_member (Set_E 0x3F800000 :: (unit, unit) assignment)
   \<and> get_member M_hitnuc (assign (Set_E 0x3F800000) (SRTrueInteraction_default 0x7FA00000 () :: (unit, unit) SRTrueInteraction)) = get_member M_hitnuc (SRTrueInteraction_default 0x7FA00000 () :: (unit, unit) SRTrueInteraction)
   \<and> get_member M_hitnuc (SRTrueInteraction_default 0x7FA00000 () :: (unit, unit) SRTrueInteraction) = V_int 0"
  using assign_frame [of M_hitnuc "Set_E 0x3F800000" "(SRTrueInteraction_default 0x7FA00000 () :: (unit, unit) SRTrueInteraction)"]
  by (simp add: SRTrueInteraction_default_def)

text \<open>
  C9. The five multiplicity members npiplus, npiminus, npizero, nproton and nneutron are
  declared unsigned: whatever the record, each holds a non-negative integer, and the
  assignment of \<open>-1\<close> to one of them stores \<open>4294967295\<close>. The daughter count nprim is
  declared signed: after the assignment of \<open>-1\<close> it holds \<open>-1\<close>, so a negative
  daughter count is a state of the record.
\<close>

theorem multiplicities_unsigned_nprim_signed:
  "(\<exists>v. get_member M_npiplus r = V_uint v)
   \<and> (\<exists>v. get_member M_npiminus r = V_uint v)
   \<and> (\<exists>v. get_member M_npizero r = V_uint v)
   \<and> (\<exists>v. get_member M_nproton r = V_uint v)
   \<and> (\<exists>v. get_member M_nneutron r = V_uint v)
   \<and> (\<exists>v. get_member M_nprim r = V_int v)
   \<and> (\<exists>n. integer_value (get_member M_npiplus r) = Some n \<and> 0 \<le> n)
   \<and> (\<exists>n. integer_value (get_member M_npiminus r) = Some n \<and> 0 \<le> n)
   \<and> (\<exists>n. integer_value (get_member M_npizero r) = Some n \<and> 0 \<le> n)
   \<and> (\<exists>n. integer_value (get_member M_nproton r) = Some n \<and> 0 \<le> n)
   \<and> (\<exists>n. integer_value (get_member M_nneutron r) = Some n \<and> 0 \<le> n)
   \<and> integer_value (get_member M_npiplus (assign (Set_npiplus (- 1)) r)) = Some 4294967295
   \<and> integer_value (get_member M_npiminus (assign (Set_npiminus (- 1)) r)) = Some 4294967295
   \<and> integer_value (get_member M_npizero (assign (Set_npizero (- 1)) r)) = Some 4294967295
   \<and> integer_value (get_member M_nproton (assign (Set_nproton (- 1)) r)) = Some 4294967295
   \<and> integer_value (get_member M_nneutron (assign (Set_nneutron (- 1)) r)) = Some 4294967295
   \<and> integer_value (get_member M_nprim (assign (Set_nprim (- 1)) r)) = Some (- 1)
   \<and> (\<exists>n. integer_value (get_member M_nprim (assign (Set_nprim (- 1)) r)) = Some n \<and> n < 0)"
proof -
  have "uint (- 1 :: c_uint) = 4294967295"
    by (simp add: uint_word_ariths)
  then show ?thesis
    by simp
qed

section \<open>The missing-value sentinel\<close>

text \<open>
  C10. The class constant \<open>NaN\<close> being a NaN, no \<open>float\<close> compares equal to it: the
  comparison of any value with the sentinel is false on either side. In particular,
  for the default-constructed record, each scalar floating-point member compared with
  the sentinel gives false, while the classification \<open>isnan\<close> of the member gives true.
\<close>

theorem sentinel_never_equal:
  "isnan NaN \<Longrightarrow>
   \<not> float_eq x NaN \<and> \<not> float_eq NaN x
   \<and> \<not> float_eq (E (SRTrueInteraction_default NaN vec0)) NaN \<and> isnan (E (SRTrueInteraction_default NaN vec0))
   \<and> \<not> float_eq (time (SRTrueInteraction_default NaN vec0)) NaN \<and> isnan (time (SRTrueInteraction_default NaN vec0))
   \<and> \<not> float_eq (bjorkenX (SRTrueInteraction_default NaN vec0)) NaN \<and> isnan (bjorkenX (SRTrueInteraction_default NaN vec0))
   \<and> \<not> float_eq (inelasticity (SRTrueInteraction_default NaN vec0)) NaN \<and> isnan (inelasticity (SRTrueInteraction_default NaN vec0))
   \<and> \<not> float_eq (Q2 (SRTrueInteraction_default NaN vec0)) NaN \<and> isnan (Q2 (SRTrueInteraction_default NaN vec0))
   \<and> \<not> float_eq (q0 (SRTrueInteraction_default NaN vec0)) NaN \<and> isnan (q0 (SRTrueInteraction_default NaN vec0))
   \<and> \<not> float_eq (modq (SRTrueInteraction_default NaN vec0)) NaN \<and> isnan (modq (SRTrueInteraction_default NaN vec0))
   \<and> \<not> float_eq (W (SRTrueInteraction_default NaN vec0)) NaN \<and> isnan (W (SRTrueInteraction_default NaN vec0))
   \<and> \<not> float_eq (t (SRTrueInteraction_default NaN vec0)) NaN \<and> isnan (t (SRTrueInteraction_default NaN vec0))
   \<and> \<not> float_eq (baseline (SRTrueInteraction_default NaN vec0)) NaN \<and> isnan (baseline (SRTrueInteraction_default NaN vec0))
   \<and> \<not> float_eq (xsec (SRTrueInteraction_default NaN vec0)) NaN \<and> isnan (xsec (SRTrueInteraction_default NaN vec0))
   \<and> \<not> float_eq (genweight (SRTrueInteraction_default NaN vec0)) NaN \<and> isnan (genweight (SRTrueInteraction_default NaN vec0))
   \<and> \<not> float_eq (parent_dcy_E (SRTrueInteraction_default NaN vec0)) NaN \<and> isnan (parent_dcy_E (SRTrueInteraction_default NaN vec0))
   \<and> \<not> float_eq (imp_weight (SRTrueInteraction_default NaN vec0)) NaN \<and> isnan (imp_weight (SRTrueInteraction_default NaN vec0))"
  by (simp add: float_eq_def SRTrueInteraction_default_def)

theorem sentinel_never_equal_witness:
  "isnan 0x7FA00000
   \<and> \<not> float_eq 0x7FA00000 0x7FA00000
   \<and> \<not> float_eq (E (SRTrueInteraction_default 0x7FA00000 () :: (unit, unit) SRTrueInteraction)) 0x7FA00000
   \<and> isnan (E (SRTrueInteraction_default 0x7FA00000 () :: (unit, unit) SRTrueInteraction))
   \<and> float_eq 0x3F800000 0x3F800000"
proof -
  have nan: "isnan 0x7FA00000"
    by (simp add: isnan_def float_exponent_def float_fraction_def)
  have one: "float_eq 0x3F800000 0x3F800000"
    by (simp add: float_eq_def isnan_def float_exponent_def float_fraction_def)
  note inst = sentinel_never_equal [OF nan, of "0x7FA00000" "()"]
  from inst have "\<not> float_eq 0x7FA00000 0x7FA00000"
    by (rule conjunct1)
  moreover from inst have "\<not> float_eq (E (SRTrueInteraction_default 0x7FA00000 () :: (unit, unit) SRTrueInteraction)) 0x7FA00000
      \<and> isnan (E (SRTrueInteraction_default 0x7FA00000 () :: (unit, unit) SRTrueInteraction))"
    by blast
  ultimately show ?thesis
    using nan one by blast
qed

end
